theory Spec2Isabelle
  imports Complex_Main "HOL-Library.Word"
begin

section \<open>Values, exceptions and the environment of \<^verbatim>\<open>sharepoint_wrapper/_raw.py\<close>\<close>

text \<open>
  The module is five functions over one HTTP transport handle. Each one builds a
  request, calls \<^verbatim>\<open>http.request\<close> once, decodes the body with
  \<^verbatim>\<open>json.loads\<close>, and reshapes the parsed value. Everything the module calls but
  does not define (urllib3, the JSON decoder, the clock, \<^verbatim>\<open>str\<close> of a
  non-string value, the constant \<^verbatim>\<open>SCOPE\<close>) is a field of the record
  \<open>env\<close>; the functions below are the module's own code.
\<close>

type_synonym bytes = "8 word list"

text \<open>
  What \<^verbatim>\<open>json.loads\<close> can return: \<^verbatim>\<open>None\<close>, a bool, an int, a float, a
  str, a list or a dict. A dict is an association list read through \<open>map_of\<close>.
  A float is a double: a finite one is the rational it denotes, and the decoder also
  yields infinities and NaN. Arithmetic on doubles rounds, so it is not the arithmetic
  of \<open>rat\<close>: it is a field of \<open>env\<close> below.
\<close>

datatype pyfloat = Finite rat | PosInf | NegInf | NaN

datatype json =
    JNone
  | JBool bool
  | JInt int
  | JFloat pyfloat
  | JStr string
  | JList "json list"
  | JDict "(string \<times> json) list"

text \<open>
  The exceptions that can travel through the module. \<open>Exception v\<close> is
  \<^verbatim>\<open>raise Exception(v)\<close> of the module itself; \<open>KeyError\<close>, \<open>TypeError\<close> and
  \<open>AttributeError\<close> are raised by the interpreter on the parsed value (they carry the
  key, or the offending value); \<open>LibraryError m\<close> is anything raised inside a library
  call, with \<open>m\<close> its \<^verbatim>\<open>str()\<close>.
\<close>

datatype py_exn =
    Exception json
  | KeyError string
  | TypeError json
  | AttributeError json
  | LibraryError string

datatype retries_arg = RetriesFalse | RetriesNotPassed

record http_request =
  meth :: string
  url :: string
  headers :: "(string \<times> string) list"
  body :: "string option"
  retries :: retries_arg

record response =
  status :: int
  data :: bytes

datatype bytesio = BytesIO bytes

text \<open>A naive \<^verbatim>\<open>datetime\<close> (no time zone), as \<^verbatim>\<open>fromtimestamp\<close> returns it.\<close>

record datetime =
  year :: int
  month :: int
  day :: int
  hour :: int
  minute :: int
  second :: int
  microsecond :: int

record env =
  request :: "http_request \<Rightarrow> py_exn + response"
  loads :: "bytes \<Rightarrow> py_exn + json"
  urlencode :: "(string \<times> string) list \<Rightarrow> string"
  SCOPE :: string
  clock :: pyfloat
  float_plus :: "pyfloat \<Rightarrow> pyfloat \<Rightarrow> pyfloat"
  int_to_float :: "int \<Rightarrow> py_exn + pyfloat"
  fromtimestamp :: "pyfloat \<Rightarrow> py_exn + datetime"
  py_repr :: "json \<Rightarrow> string"
  interp_text :: "py_exn \<Rightarrow> string"

text \<open>
  \<open>request\<close> is \<^verbatim>\<open>http.request\<close>; \<open>loads b\<close> is
  \<^verbatim>\<open>json.loads(b.decode("utf-8"))\<close>; \<open>clock\<close> is the value of
  \<^verbatim>\<open>datetime.now().timestamp()\<close> when the module reads it; \<open>float_plus\<close> is
  the addition of two doubles, rounding included; \<open>int_to_float\<close> is the conversion
  of an int operand to a double, which raises when the int is too large;
  \<open>fromtimestamp\<close> is \<^verbatim>\<open>datetime.fromtimestamp\<close>, which rounds to the
  microsecond, converts to local time and raises outside the platform's range;
  \<open>py_repr\<close> is \<^verbatim>\<open>str\<close> on ints, floats, lists and dicts; \<open>interp_text\<close>
  is the message of an interpreter-raised \<open>TypeError\<close> or \<open>AttributeError\<close>.
\<close>

type_synonym 'a outcome = "http_request list \<times> (py_exn + 'a)"

section \<open>Python primitives used by the module\<close>

definition then_res :: "py_exn + 'a \<Rightarrow> ('a \<Rightarrow> py_exn + 'b) \<Rightarrow> py_exn + 'b" where
  "then_res r f = (case r of Inl e \<Rightarrow> Inl e | Inr v \<Rightarrow> f v)"

definition startswith :: "string \<Rightarrow> string \<Rightarrow> bool" where
  "startswith s p = (take (length p) s = p)"

fun is_substring :: "string \<Rightarrow> string \<Rightarrow> bool" where
  "is_substring c [] = (c = [])"
| "is_substring c (x # xs) = (take (length c) (x # xs) = c \<or> is_substring c xs)"

text \<open>\<^verbatim>\<open>v.get(k, dflt)\<close>: only a dict has the method.\<close>

fun py_get :: "json \<Rightarrow> string \<Rightarrow> json \<Rightarrow> py_exn + json" where
  "py_get (JDict kvs) k dflt = Inr (case map_of kvs k of None \<Rightarrow> dflt | Some v \<Rightarrow> v)"
| "py_get v k dflt = Inl (AttributeError v)"

text \<open>\<^verbatim>\<open>v[k]\<close> with a string key.\<close>

fun py_getitem :: "json \<Rightarrow> string \<Rightarrow> py_exn + json" where
  "py_getitem (JDict kvs) k = (case map_of kvs k of None \<Rightarrow> Inl (KeyError k) | Some v \<Rightarrow> Inr v)"
| "py_getitem v k = Inl (TypeError v)"

text \<open>\<^verbatim>\<open>k in v\<close> with a string on the left.\<close>

fun py_contains :: "string \<Rightarrow> json \<Rightarrow> py_exn + bool" where
  "py_contains k (JDict kvs) = Inr (map_of kvs k \<noteq> None)"
| "py_contains k (JList xs) = Inr (JStr k \<in> set xs)"
| "py_contains k (JStr s) = Inr (is_substring k s)"
| "py_contains k v = Inl (TypeError v)"

text \<open>\<^verbatim>\<open>for d in v\<close>: the elements of a list, the keys of a dict, the characters of a str.\<close>

fun py_iter :: "json \<Rightarrow> py_exn + json list" where
  "py_iter (JList xs) = Inr xs"
| "py_iter (JDict kvs) = Inr (map JStr (remdups (map fst kvs)))"
| "py_iter (JStr s) = Inr (map (\<lambda>c. JStr [c]) s)"
| "py_iter v = Inl (TypeError v)"

text \<open>\<^verbatim>\<open>str(v)\<close>.\<close>

fun py_str :: "env \<Rightarrow> json \<Rightarrow> string" where
  "py_str E (JStr s) = s"
| "py_str E JNone = ''None''"
| "py_str E (JBool b) = (if b then ''True'' else ''False'')"
| "py_str E v = py_repr E v"

text \<open>\<^verbatim>\<open>str(e)\<close> of a caught exception; a \<open>KeyError\<close> prints its key quoted.\<close>

fun exn_str :: "env \<Rightarrow> py_exn \<Rightarrow> string" where
  "exn_str E (Exception v) = py_str E v"
| "exn_str E (KeyError k) = [CHR 0x27] @ k @ [CHR 0x27]"
| "exn_str E (LibraryError m) = m"
| "exn_str E e = interp_text E e"

text \<open>
  \<^verbatim>\<open>t + v\<close> with a float on the left: an int (a bool is one) is converted to a
  double first, a float is added as it is, anything else is a \<open>TypeError\<close>.
\<close>

fun float_add :: "env \<Rightarrow> pyfloat \<Rightarrow> json \<Rightarrow> py_exn + pyfloat" where
  "float_add E t (JInt n) = then_res (int_to_float E n) (\<lambda>x. Inr (float_plus E t x))"
| "float_add E t (JFloat x) = Inr (float_plus E t x)"
| "float_add E t (JBool b) =
     then_res (int_to_float E (if b then 1 else 0)) (\<lambda>x. Inr (float_plus E t x))"
| "float_add E t v = Inl (TypeError v)"

text \<open>
  \<^verbatim>\<open>try: ... except Exception as e: raise Exception(f"{label}{str(e)}")\<close>.
  The requests already issued stay issued.
\<close>

definition rewrap :: "env \<Rightarrow> string \<Rightarrow> 'a outcome \<Rightarrow> 'a outcome" where
  "rewrap E label r =
     (case snd r of
        Inl e \<Rightarrow> (fst r, Inl (Exception (JStr (label @ exn_str E e))))
      | Inr v \<Rightarrow> (fst r, Inr v))"

definition bearer_headers :: "string \<Rightarrow> (string \<times> string) list" where
  "bearer_headers token =
     [(''Accept'', ''application/json''), (''Authorization'', ''Bearer '' @ token)]"

definition base_path_error :: py_exn where
  "base_path_error = Exception (JStr ''Base path must always begin with a slash /'')"

definition bad_base_path :: "string option \<Rightarrow> bool" where
  "bad_base_path base_path =
     (case base_path of None \<Rightarrow> False | Some p \<Rightarrow> \<not> startswith p ''/'')"

section \<open>get_graph_token\<close>

definition token_request :: "env \<Rightarrow> string \<Rightarrow> string \<Rightarrow> string \<Rightarrow> http_request" where
  "token_request E tenant_domain client_id client_secret =
     \<lparr>meth = ''POST'',
      url = ''https://login.microsoftonline.com/'' @ tenant_domain @ ''/oauth2/v2.0/token'',
      headers = [(''Content-Type'', ''application/x-www-form-urlencoded'')],
      body = Some (urlencode E
        [(''grant_type'', ''client_credentials''),
         (''client_id'', client_id),
         (''client_secret'', client_secret),
         (''scope'', SCOPE E)]),
      retries = RetriesFalse\<rparr>"

text \<open>
  \<^verbatim>\<open>if expires_in is not None:
      expires_in = datetime.fromtimestamp(datetime.now().timestamp() + expires_in)\<close>
\<close>

definition token_expiry :: "env \<Rightarrow> json \<Rightarrow> py_exn + datetime option" where
  "token_expiry E expires_in =
     (if expires_in \<noteq> JNone
      then then_res (float_add E (clock E) expires_in) (\<lambda>ts.
           then_res (fromtimestamp E ts) (\<lambda>dt. Inr (Some dt)))
      else Inr None)"

definition get_graph_token_try ::
  "env \<Rightarrow> string \<Rightarrow> string \<Rightarrow> string \<Rightarrow> (json \<times> datetime option) outcome" where
  "get_graph_token_try E tenant_domain client_id client_secret =
     (let req = token_request E tenant_domain client_id client_secret in
      ([req],
       then_res (request E req) (\<lambda>resp.
       then_res (loads E (data resp)) (\<lambda>response_data.
         if status resp \<noteq> 200
         then then_res (py_get response_data ''error_description'' (JStr ''Unknown error''))
                (\<lambda>error_description. Inl (Exception error_description))
         else then_res (py_get response_data ''access_token'' JNone) (\<lambda>token.
              then_res (py_get response_data ''expires_in'' JNone) (\<lambda>expires_in.
              then_res (token_expiry E expires_in) (\<lambda>expiry.
                Inr (token, expiry))))))))"

definition get_graph_token ::
  "env \<Rightarrow> string \<Rightarrow> string \<Rightarrow> string \<Rightarrow> (json \<times> datetime option) outcome" where
  "get_graph_token E tenant_domain client_id client_secret =
     rewrap E ''Error during token retrieval: ''
       (get_graph_token_try E tenant_domain client_id client_secret)"

section \<open>get_site and get_drives\<close>

definition api_error :: "json \<Rightarrow> py_exn + 'a" where
  "api_error response_data =
     then_res (py_getitem response_data ''error'') (\<lambda>err.
     then_res (py_getitem err ''message'') (\<lambda>error_description.
       Inl (Exception error_description)))"

definition site_request :: "string \<Rightarrow> string \<Rightarrow> string \<Rightarrow> http_request" where
  "site_request tenant site token =
     \<lparr>meth = ''GET'',
      url = ''https://graph.microsoft.com/v1.0/sites/'' @ tenant @ ''.sharepoint.com:/sites/'' @ site,
      headers = bearer_headers token,
      body = None,
      retries = RetriesFalse\<rparr>"

definition get_site_try :: "env \<Rightarrow> string \<Rightarrow> string \<Rightarrow> string \<Rightarrow> json outcome" where
  "get_site_try E tenant site token =
     (let req = site_request tenant site token in
      ([req],
       then_res (request E req) (\<lambda>resp.
       then_res (loads E (data resp)) (\<lambda>response_data.
         if status resp \<noteq> 200 then api_error response_data
         else py_get response_data ''id'' JNone))))"

definition get_site :: "env \<Rightarrow> string \<Rightarrow> string \<Rightarrow> string \<Rightarrow> json outcome" where
  "get_site E tenant site token = rewrap E ''Invalid Site: '' (get_site_try E tenant site token)"

definition drives_request :: "string \<Rightarrow> string \<Rightarrow> http_request" where
  "drives_request site_id token =
     \<lparr>meth = ''GET'',
      url = ''https://graph.microsoft.com/v1.0/sites/'' @ site_id @ ''/drives'',
      headers = bearer_headers token,
      body = None,
      retries = RetriesFalse\<rparr>"

text \<open>The comprehension \<^verbatim>\<open>[(d.get("id"), d.get("name")) for d in raw_drives]\<close>.\<close>

fun drive_pairs :: "json list \<Rightarrow> py_exn + (json \<times> json) list" where
  "drive_pairs [] = Inr []"
| "drive_pairs (d # ds) =
     then_res (py_get d ''id'' JNone) (\<lambda>i.
     then_res (py_get d ''name'' JNone) (\<lambda>n.
     then_res (drive_pairs ds) (\<lambda>rest. Inr ((i, n) # rest))))"

definition get_drives_try :: "env \<Rightarrow> string \<Rightarrow> string \<Rightarrow> (json \<times> json) list outcome" where
  "get_drives_try E site_id token =
     (let req = drives_request site_id token in
      ([req],
       then_res (request E req) (\<lambda>resp.
       then_res (loads E (data resp)) (\<lambda>response_data.
         if status resp \<noteq> 200 then api_error response_data
         else then_res (py_get response_data ''value'' JNone) (\<lambda>raw_drives.
              if raw_drives \<noteq> JNone
              then then_res (py_iter raw_drives) drive_pairs
              else Inr [])))))"

definition get_drives :: "env \<Rightarrow> string \<Rightarrow> string \<Rightarrow> (json \<times> json) list outcome" where
  "get_drives E site_id token = rewrap E ''Invalid Site: '' (get_drives_try E site_id token)"

section \<open>get_children\<close>

definition children_request :: "string \<Rightarrow> string \<Rightarrow> string option \<Rightarrow> http_request" where
  "children_request drive_id token base_path =
     \<lparr>meth = ''GET'',
      url = ''https://graph.microsoft.com/v1.0/drives/'' @ drive_id @ ''/root''
            @ (case base_path of None \<Rightarrow> '''' | Some p \<Rightarrow> '':'' @ p @ '':'') @ ''/children'',
      headers = bearer_headers token,
      body = None,
      retries = RetriesFalse\<rparr>"

text \<open>\<^verbatim>\<open>(category is None) or (category is not None and category in d)\<close>.\<close>

definition keep_child :: "string option \<Rightarrow> json \<Rightarrow> py_exn + bool" where
  "keep_child category d = (case category of None \<Rightarrow> Inr True | Some c \<Rightarrow> py_contains c d)"

text \<open>
  \<^verbatim>\<open>"folder" if "folder" in d else "file" if "file" in d else "unknown"\<close>.
\<close>

definition child_kind :: "json \<Rightarrow> py_exn + string" where
  "child_kind d =
     then_res (py_contains ''folder'' d) (\<lambda>is_folder.
       if is_folder then Inr ''folder''
       else then_res (py_contains ''file'' d) (\<lambda>is_file.
         if is_file then Inr ''file'' else Inr ''unknown''))"

definition child_entry :: "json \<Rightarrow> py_exn + (json \<times> json \<times> string)" where
  "child_entry d =
     then_res (py_get d ''name'' JNone) (\<lambda>n.
     then_res (py_get d ''webUrl'' JNone) (\<lambda>w.
     then_res (child_kind d) (\<lambda>k. Inr (n, w, k))))"

fun child_entries :: "string option \<Rightarrow> json list \<Rightarrow> py_exn + (json \<times> json \<times> string) list" where
  "child_entries category [] = Inr []"
| "child_entries category (d # ds) =
     then_res (keep_child category d) (\<lambda>keep.
       if keep
       then then_res (child_entry d) (\<lambda>t.
            then_res (child_entries category ds) (\<lambda>rest. Inr (t # rest)))
       else child_entries category ds)"

definition get_children_try ::
  "env \<Rightarrow> string \<Rightarrow> string \<Rightarrow> string option \<Rightarrow> string option
     \<Rightarrow> (json \<times> json \<times> string) list outcome" where
  "get_children_try E drive_id token base_path category =
     (let req = children_request drive_id token base_path in
      ([req],
       then_res (request E req) (\<lambda>resp.
       then_res (loads E (data resp)) (\<lambda>response_data.
         if status resp \<noteq> 200 then api_error response_data
         else then_res (py_get response_data ''value'' JNone) (\<lambda>raw_drives.
              if raw_drives \<noteq> JNone
              then then_res (py_iter raw_drives) (child_entries category)
              else Inr [])))))"

definition get_children ::
  "env \<Rightarrow> string \<Rightarrow> string \<Rightarrow> string option \<Rightarrow> string option
     \<Rightarrow> (json \<times> json \<times> string) list outcome" where
  "get_children E drive_id token base_path category =
     (if bad_base_path base_path then ([], Inl base_path_error)
      else rewrap E ''Invalid Site: '' (get_children_try E drive_id token base_path category))"

section \<open>get_file\<close>

text \<open>
  \<^verbatim>\<open>(base_path or "") + "/" + file_name\<close>: \<^verbatim>\<open>None\<close> and the empty string
  both give the empty prefix. The \<^verbatim>\<open>retries\<close> argument is commented out in the
  source, so the request leaves it to the transport's default.
\<close>

definition file_request :: "string \<Rightarrow> string \<Rightarrow> string \<Rightarrow> string option \<Rightarrow> http_request" where
  "file_request drive_id token file_name base_path =
     \<lparr>meth = ''GET'',
      url = ''https://graph.microsoft.com/v1.0/drives/'' @ drive_id @ ''/root''
            @ '':'' @ ((case base_path of None \<Rightarrow> '''' | Some p \<Rightarrow> p) @ ''/'' @ file_name) @ '':''
            @ ''/content'',
      headers = bearer_headers token,
      body = None,
      retries = RetriesNotPassed\<rparr>"

definition get_file_try ::
  "env \<Rightarrow> string \<Rightarrow> string \<Rightarrow> string \<Rightarrow> string option \<Rightarrow> bytesio outcome" where
  "get_file_try E drive_id token file_name base_path =
     (let req = file_request drive_id token file_name base_path in
      ([req],
       then_res (request E req) (\<lambda>resp.
         if status resp \<noteq> 200
         then then_res (loads E (data resp)) api_error
         else Inr (BytesIO (data resp)))))"

definition get_file ::
  "env \<Rightarrow> string \<Rightarrow> string \<Rightarrow> string \<Rightarrow> string option \<Rightarrow> bytesio outcome" where
  "get_file E drive_id token file_name base_path =
     (if bad_base_path base_path then ([], Inl base_path_error)
      else rewrap E ''Invalid Site: '' (get_file_try E drive_id token file_name base_path))"

section \<open>A canned environment\<close>

text \<open>
  A transport that answers every request with the same result and a decoder that
  returns the same parse, as a test double would: used to run the functions on
  concrete inputs. Its clock reads 1000 seconds after the epoch; its doubles add
  exactly (as doubles do on the small whole numbers used here); its
  \<open>fromtimestamp\<close> is UTC and covers the first day of 1970.
\<close>

definition exact_plus :: "pyfloat \<Rightarrow> pyfloat \<Rightarrow> pyfloat" where
  "exact_plus a b = (case (a, b) of (Finite x, Finite y) \<Rightarrow> Finite (x + y) | _ \<Rightarrow> NaN)"

definition first_day_utc :: "pyfloat \<Rightarrow> py_exn + datetime" where
  "first_day_utc t =
     (case t of
        Finite x \<Rightarrow>
          if 0 \<le> x \<and> x < 86400
          then Inr \<lparr>year = 1970, month = 1, day = 1,
                    hour = \<lfloor>x\<rfloor> div 3600,
                    minute = (\<lfloor>x\<rfloor> mod 3600) div 60,
                    second = \<lfloor>x\<rfloor> mod 60,
                    microsecond = \<lfloor>(x - of_int \<lfloor>x\<rfloor>) * 1000000\<rfloor>\<rparr>
          else Inl (LibraryError ''timestamp out of range'')
      | _ \<Rightarrow> Inl (LibraryError ''cannot convert float to datetime''))"

definition canned :: "py_exn + response \<Rightarrow> py_exn + json \<Rightarrow> env" where
  "canned answer parsed =
     \<lparr>request = (\<lambda>_. answer),
      loads = (\<lambda>_. parsed),
      urlencode = (\<lambda>kvs. concat (map (\<lambda>(k, v). k @ ''='' @ v @ ''&'') kvs)),
      SCOPE = ''https://graph.microsoft.com/.default'',
      clock = Finite 1000,
      float_plus = exact_plus,
      int_to_float = (\<lambda>n. Inr (Finite (of_int n))),
      fromtimestamp = first_day_utc,
      py_repr = (\<lambda>_. ''<repr>''),
      interp_text = (\<lambda>_. ''<interpreter message>'')\<rparr>"

definition ok_response :: response where
  "ok_response = \<lparr>status = 200, data = [1, 2, 3]\<rparr>"

definition not_found_response :: response where
  "not_found_response = \<lparr>status = 404, data = [4, 5]\<rparr>"

section \<open>Reading a parsed object\<close>

text \<open>
  For stating what the functions return on a list of JSON objects: whether a value is a
  dict, whether a dict has a key, and \<^verbatim>\<open>d.get(k)\<close> of a dict.
\<close>

fun is_dict :: "json \<Rightarrow> bool" where
  "is_dict (JDict kvs) = True"
| "is_dict v = False"

fun has_key :: "json \<Rightarrow> string \<Rightarrow> bool" where
  "has_key (JDict kvs) k = (map_of kvs k \<noteq> None)"
| "has_key v k = False"

fun field_of :: "json \<Rightarrow> string \<Rightarrow> json" where
  "field_of (JDict kvs) k = (case map_of kvs k of None \<Rightarrow> JNone | Some v \<Rightarrow> v)"
| "field_of v k = JNone"

text \<open>Canned payloads: a children listing and a provider error body.\<close>

definition sample_children :: "json list" where
  "sample_children =
     [JDict [(''name'', JStr ''Reports''), (''webUrl'', JStr ''https://x/Reports''), (''folder'', JDict [])],
      JDict [(''name'', JStr ''q1.pdf''), (''webUrl'', JStr ''https://x/q1.pdf''), (''file'', JDict [])],
      JDict [(''name'', JStr ''misc'')]]"

definition item_not_found :: json where
  "item_not_found =
     JDict [(''error'', JDict [(''code'', JStr ''itemNotFound''),
                               (''message'', JStr ''The resource could not be found.'')])]"

section \<open>Helper lemmas\<close>

lemma then_res_simps [simp]:
  "then_res (Inl e) f = Inl e" "then_res (Inr v) f = f v"
  by (simp_all add: then_res_def)

lemma fst_rewrap [simp]: "fst (rewrap E label r) = fst r"
  by (simp add: rewrap_def split: sum.splits)

lemma snd_rewrap_Inl [simp]:
  "snd r = Inl e \<Longrightarrow> snd (rewrap E label r) = Inl (Exception (JStr (label @ exn_str E e)))"
  by (simp add: rewrap_def)

lemma snd_rewrap_Inr [simp]: "snd r = Inr v \<Longrightarrow> snd (rewrap E label r) = Inr v"
  by (simp add: rewrap_def)

lemma startswith_slash: "startswith p ''/'' = (\<exists>rest. p = CHR ''/'' # rest)"
  by (cases p) (auto simp: startswith_def)

lemma snd_rewrap_cases:
  "snd (rewrap E label r) = Inl e \<Longrightarrow>
     \<exists>e0. snd r = Inl e0 \<and> e = Exception (JStr (label @ exn_str E e0))"
  by (auto simp: rewrap_def split: sum.splits)

lemma is_substring_suffix: "is_substring d (p @ d)"
proof (induction p)
  case Nil
  show ?case by (cases d) simp_all
next
  case (Cons x p)
  then show ?case by simp
qed

lemma child_entry_dict:
  "child_entry (JDict kvs) =
     Inr (field_of (JDict kvs) ''name'', field_of (JDict kvs) ''webUrl'',
          if has_key (JDict kvs) ''folder'' then ''folder''
          else if has_key (JDict kvs) ''file'' then ''file'' else ''unknown'')"
  by (simp add: child_entry_def child_kind_def)

lemma child_entries_dicts:
  "list_all is_dict ds \<Longrightarrow>
   child_entries category ds =
     Inr (map (\<lambda>d. (field_of d ''name'', field_of d ''webUrl'',
                    if has_key d ''folder'' then ''folder''
                    else if has_key d ''file'' then ''file'' else ''unknown''))
            (filter (\<lambda>d. case category of None \<Rightarrow> True | Some c \<Rightarrow> has_key d c) ds))"
proof (induction ds)
  case Nil
  show ?case by simp
next
  case (Cons d ds)
  from Cons.prems obtain kvs where d: "d = JDict kvs"
    by (cases d) simp_all
  from Cons.prems have "list_all is_dict ds" by simp
  then have IH: "child_entries category ds =
     Inr (map (\<lambda>d. (field_of d ''name'', field_of d ''webUrl'',
                    if has_key d ''folder'' then ''folder''
                    else if has_key d ''file'' then ''file'' else ''unknown''))
            (filter (\<lambda>d. case category of None \<Rightarrow> True | Some c \<Rightarrow> has_key d c) ds))"
    by (rule Cons.IH)
  show ?case
  proof (cases category)
    case None
    then show ?thesis
      using IH by (simp add: d keep_child_def child_entry_dict del: has_key.simps field_of.simps)
  next
    case (Some c)
    then show ?thesis
      using IH by (simp add: d keep_child_def child_entry_dict del: field_of.simps)
  qed
qed

lemma drive_pairs_dicts:
  "list_all is_dict ds \<Longrightarrow>
   drive_pairs ds = Inr (map (\<lambda>d. (field_of d ''id'', field_of d ''name'')) ds)"
proof (induction ds)
  case Nil
  show ?case by simp
next
  case (Cons d ds)
  then show ?case by (cases d) simp_all
qed

lemma api_error_message:
  "map_of kvs ''error'' = Some (JDict err) \<Longrightarrow> map_of err ''message'' = Some m \<Longrightarrow>
   api_error (JDict kvs) = Inl (Exception m)"
  by (simp add: api_error_def)

section \<open>Base path validation\<close>

text \<open>
  Claim C1. When a base path is given and does not start with a slash, both
  \<open>get_children\<close> and \<open>get_file\<close> raise the validation error and the list of
  requests they issued is empty. In every other case (no base path, or one that starts
  with a slash) exactly one request is issued, the one built from the arguments: the
  request step is reached only then.
\<close>

theorem base_path_checked_before_request:
  "(if \<exists>p. base_path = Some p \<and> \<not> startswith p ''/''
    then get_children E drive_id token base_path category = ([], Inl base_path_error) \<and>
         get_file E drive_id token file_name base_path = ([], Inl base_path_error)
    else fst (get_children E drive_id token base_path category)
           = [children_request drive_id token base_path] \<and>
         fst (get_file E drive_id token file_name base_path)
           = [file_request drive_id token file_name base_path])"
  by (cases base_path)
     (simp_all add: get_children_def get_file_def bad_base_path_def
        get_children_try_def get_file_try_def Let_def)

theorem base_path_checked_before_request_witness:
  "get_children (canned (Inr ok_response) (Inr (JDict []))) ''d1'' ''tok'' (Some ''Reports'') None
     = ([], Inl base_path_error) \<and>
   get_file (canned (Inr ok_response) (Inr (JDict []))) ''d1'' ''tok'' ''q1.pdf'' (Some ''Reports'')
     = ([], Inl base_path_error) \<and>
   fst (get_children (canned (Inr ok_response) (Inr (JDict []))) ''d1'' ''tok'' (Some ''/Reports'') None)
     = [children_request ''d1'' ''tok'' (Some ''/Reports'')] \<and>
   fst (get_file (canned (Inr ok_response) (Inr (JDict []))) ''d1'' ''tok'' ''q1.pdf'' None)
     = [file_request ''d1'' ''tok'' ''q1.pdf'' None]"
  using base_path_checked_before_request
          [of "Some ''Reports''" "canned (Inr ok_response) (Inr (JDict []))" "''d1''" "''tok''" None "''q1.pdf''"]
        base_path_checked_before_request
          [of "Some ''/Reports''" "canned (Inr ok_response) (Inr (JDict []))" "''d1''" "''tok''" None "''q1.pdf''"]
        base_path_checked_before_request
          [of None "canned (Inr ok_response) (Inr (JDict []))" "''d1''" "''tok''" None "''q1.pdf''"]
  by (simp add: startswith_def)

text \<open>
  Claim C9. The validation error of \<open>get_children\<close> and \<open>get_file\<close> is raised
  outside the \<^verbatim>\<open>try\<close> block: its message is exactly
  \<^verbatim>\<open>Base path must always begin with a slash /\<close>, with no
  \<^verbatim>\<open>Invalid Site: \<close> in front.
\<close>

theorem base_path_error_not_rewrapped:
  assumes "base_path = Some p" and "\<not> startswith p ''/''"
  shows "snd (get_children E drive_id token base_path category)
           = Inl (Exception (JStr ''Base path must always begin with a slash /'')) \<and>
         snd (get_file E drive_id token file_name base_path)
           = Inl (Exception (JStr ''Base path must always begin with a slash /'')) \<and>
         exn_str E (Exception (JStr ''Base path must always begin with a slash /''))
           = ''Base path must always begin with a slash /'' \<and>
         \<not> startswith ''Base path must always begin with a slash /'' ''Invalid Site: ''"
  using assms
  by (simp add: get_children_def get_file_def bad_base_path_def base_path_error_def
        startswith_def)

theorem base_path_error_not_rewrapped_witness:
  "\<not> startswith ''docs/2024'' ''/'' \<and>
   snd (get_children (canned (Inr ok_response) (Inr (JDict []))) ''d1'' ''tok'' (Some ''docs/2024'') (Some ''file''))
     = Inl (Exception (JStr ''Base path must always begin with a slash /'')) \<and>
   snd (get_file (canned (Inr ok_response) (Inr (JDict []))) ''d1'' ''tok'' ''a.txt'' (Some ''docs/2024''))
     = Inl (Exception (JStr ''Base path must always begin with a slash /''))"
proof -
  have h: "\<not> startswith ''docs/2024'' ''/''" by (simp add: startswith_def)
  show ?thesis
    using h base_path_error_not_rewrapped [OF refl h,
        of "canned (Inr ok_response) (Inr (JDict []))" "''d1''" "''tok''" "Some ''file''" "''a.txt''"]
    by simp
qed

section \<open>Token acquisition: failures\<close>

text \<open>
  Claim C10. Whatever makes \<open>get_graph_token\<close> fail, the error it raises is a plain
  \<open>Exception\<close> whose message begins with \<^verbatim>\<open>Error during token retrieval: \<close>.
  A transport failure, an undecodable body and a non-200 answer of the token endpoint
  all come out under that one label, and differ only in the text that follows it.
\<close>

theorem token_failure_label:
  "(snd (get_graph_token E tenant_domain client_id client_secret) = Inl e \<longrightarrow>
      (\<exists>m. e = Exception (JStr (''Error during token retrieval: '' @ m)))) \<and>
   (request E (token_request E tenant_domain client_id client_secret) = Inl e0 \<longrightarrow>
      snd (get_graph_token E tenant_domain client_id client_secret)
        = Inl (Exception (JStr (''Error during token retrieval: '' @ exn_str E e0)))) \<and>
   (request E (token_request E tenant_domain client_id client_secret) = Inr resp \<and>
    loads E (data resp) = Inl e1 \<longrightarrow>
      snd (get_graph_token E tenant_domain client_id client_secret)
        = Inl (Exception (JStr (''Error during token retrieval: '' @ exn_str E e1)))) \<and>
   (request E (token_request E tenant_domain client_id client_secret) = Inr resp \<and>
    loads E (data resp) = Inr (JDict kvs) \<and> status resp \<noteq> 200 \<longrightarrow>
      snd (get_graph_token E tenant_domain client_id client_secret)
        = Inl (Exception (JStr (''Error during token retrieval: '' @
            py_str E (case map_of kvs ''error_description'' of
                        None \<Rightarrow> JStr ''Unknown error'' | Some v \<Rightarrow> v)))))"
proof (intro conjI impI)
  assume "snd (get_graph_token E tenant_domain client_id client_secret) = Inl e"
  then show "\<exists>m. e = Exception (JStr (''Error during token retrieval: '' @ m))"
    unfolding get_graph_token_def by (blast dest: snd_rewrap_cases)
qed (simp_all add: get_graph_token_def get_graph_token_try_def rewrap_def Let_def)

theorem token_failure_label_witness:
  "snd (get_graph_token (canned (Inl (LibraryError ''connection refused'')) (Inr JNone))
         ''contoso.com'' ''app'' ''secret'')
     = Inl (Exception (JStr ''Error during token retrieval: connection refused'')) \<and>
   (\<exists>m. Exception (JStr ''Error during token retrieval: connection refused'')
          = Exception (JStr (''Error during token retrieval: '' @ m))) \<and>
   snd (get_graph_token (canned (Inr ok_response) (Inl (LibraryError ''Expecting value'')))
         ''contoso.com'' ''app'' ''secret'')
     = Inl (Exception (JStr ''Error during token retrieval: Expecting value'')) \<and>
   snd (get_graph_token
         (canned (Inr not_found_response) (Inr (JDict [(''error_description'', JStr ''bad secret'')])))
         ''contoso.com'' ''app'' ''secret'')
     = Inl (Exception (JStr ''Error during token retrieval: bad secret''))"
proof -
  let ?E1 = "canned (Inl (LibraryError ''connection refused'')) (Inr JNone)"
  let ?E2 = "canned (Inr ok_response) (Inl (LibraryError ''Expecting value''))"
  let ?E3 = "canned (Inr not_found_response) (Inr (JDict [(''error_description'', JStr ''bad secret'')]))"
  note t1 = token_failure_label [where E = ?E1 and tenant_domain = "''contoso.com''"
      and client_id = "''app''" and client_secret = "''secret''"
      and ?e0.0 = "LibraryError ''connection refused''"
      and e = "Exception (JStr ''Error during token retrieval: connection refused'')"]
  note t2 = token_failure_label [where E = ?E2 and tenant_domain = "''contoso.com''"
      and client_id = "''app''" and client_secret = "''secret''" and resp = ok_response
      and ?e1.0 = "LibraryError ''Expecting value''"]
  note t3 = token_failure_label [where E = ?E3 and tenant_domain = "''contoso.com''"
      and client_id = "''app''" and client_secret = "''secret''" and resp = not_found_response
      and kvs = "[(''error_description'', JStr ''bad secret'')]"]
  have first: "snd (get_graph_token ?E1 ''contoso.com'' ''app'' ''secret'')
     = Inl (Exception (JStr ''Error during token retrieval: connection refused''))"
    using t1 by (simp add: canned_def)
  from t1 first have second: "\<exists>m. Exception (JStr ''Error during token retrieval: connection refused'')
          = Exception (JStr (''Error during token retrieval: '' @ m))"
    by blast
  from t2 have third: "snd (get_graph_token ?E2 ''contoso.com'' ''app'' ''secret'')
     = Inl (Exception (JStr ''Error during token retrieval: Expecting value''))"
    by (simp add: canned_def)
  from t3 have fourth: "snd (get_graph_token ?E3 ''contoso.com'' ''app'' ''secret'')
     = Inl (Exception (JStr ''Error during token retrieval: bad secret''))"
    by (simp add: canned_def not_found_response_def)
  from first second third fourth show ?thesis by blast
qed

text \<open>
  Claim C6. When the token endpoint answers with a status other than 200 and a body
  that decodes as JSON, \<open>get_graph_token\<close> fails. When the body is a JSON object,
  the message contains its \<^verbatim>\<open>error_description\<close> string as it is, and
  contains \<^verbatim>\<open>Unknown error\<close> when the object has no such field.
\<close>

theorem token_error_description:
  assumes "request E (token_request E tenant_domain client_id client_secret) = Inr resp"
    and "status resp \<noteq> 200"
  shows "(loads E (data resp) = Inr v \<longrightarrow>
            (\<exists>e. snd (get_graph_token E tenant_domain client_id client_secret) = Inl e)) \<and>
         (loads E (data resp) = Inr (JDict kvs) \<and>
          map_of kvs ''error_description'' = Some (JStr d) \<longrightarrow>
            snd (get_graph_token E tenant_domain client_id client_secret)
              = Inl (Exception (JStr (''Error during token retrieval: '' @ d))) \<and>
            is_substring d (''Error during token retrieval: '' @ d)) \<and>
         (loads E (data resp) = Inr (JDict kvs) \<and> map_of kvs ''error_description'' = None \<longrightarrow>
            snd (get_graph_token E tenant_domain client_id client_secret)
              = Inl (Exception (JStr (''Error during token retrieval: '' @ ''Unknown error''))) \<and>
            is_substring ''Unknown error'' (''Error during token retrieval: '' @ ''Unknown error''))"
proof (intro conjI impI)
  assume l: "loads E (data resp) = Inr v"
  have "\<exists>e0. then_res (py_get v ''error_description'' (JStr ''Unknown error''))
           (\<lambda>error_description. Inl (Exception error_description) :: py_exn + json \<times> datetime option)
         = Inl e0"
    by (cases "py_get v ''error_description'' (JStr ''Unknown error'')") simp_all
  with assms l show "\<exists>e. snd (get_graph_token E tenant_domain client_id client_secret) = Inl e"
    by (auto simp: get_graph_token_def get_graph_token_try_def rewrap_def Let_def)
next
  assume "loads E (data resp) = Inr (JDict kvs) \<and> map_of kvs ''error_description'' = Some (JStr d)"
  with assms show "snd (get_graph_token E tenant_domain client_id client_secret)
      = Inl (Exception (JStr (''Error during token retrieval: '' @ d)))"
    by (simp add: get_graph_token_def get_graph_token_try_def rewrap_def Let_def)
next
  assume "loads E (data resp) = Inr (JDict kvs) \<and> map_of kvs ''error_description'' = None"
  with assms show "snd (get_graph_token E tenant_domain client_id client_secret)
      = Inl (Exception (JStr (''Error during token retrieval: '' @ ''Unknown error'')))"
    by (simp add: get_graph_token_def get_graph_token_try_def rewrap_def Let_def)
qed (rule is_substring_suffix)+

theorem token_error_description_witness:
  "snd (get_graph_token
         (canned (Inr not_found_response)
            (Inr (JDict [(''error'', JStr ''invalid_client''),
                         (''error_description'', JStr ''AADSTS7000215: Invalid client secret'')])))
         ''contoso.com'' ''app'' ''secret'')
     = Inl (Exception (JStr ''Error during token retrieval: AADSTS7000215: Invalid client secret'')) \<and>
   snd (get_graph_token
         (canned (Inr not_found_response) (Inr (JDict [(''error'', JStr ''invalid_client'')])))
         ''contoso.com'' ''app'' ''secret'')
     = Inl (Exception (JStr ''Error during token retrieval: Unknown error''))"
proof -
  let ?kvs1 = "[(''error'', JStr ''invalid_client''),
                (''error_description'', JStr ''AADSTS7000215: Invalid client secret'')]"
  let ?kvs2 = "[(''error'', JStr ''invalid_client'')]"
  let ?E1 = "canned (Inr not_found_response) (Inr (JDict ?kvs1))"
  let ?E2 = "canned (Inr not_found_response) (Inr (JDict ?kvs2))"
  have r1: "request ?E1 (token_request ?E1 ''contoso.com'' ''app'' ''secret'') = Inr not_found_response"
    and r2: "request ?E2 (token_request ?E2 ''contoso.com'' ''app'' ''secret'') = Inr not_found_response"
    by (simp_all add: canned_def)
  have s: "status not_found_response \<noteq> 200"
    by (simp add: not_found_response_def)
  have l1: "loads ?E1 (data not_found_response) = Inr (JDict ?kvs1)"
    and l2: "loads ?E2 (data not_found_response) = Inr (JDict ?kvs2)"
    by (simp_all add: canned_def)
  show ?thesis
    using token_error_description [OF r1 s, of _ ?kvs1 "''AADSTS7000215: Invalid client secret''"]
      token_error_description [OF r2 s, of _ ?kvs2] l1 l2
    by simp
qed

section \<open>Retries\<close>

text \<open>
  Claim C7, as the code has it. Each operation calls the transport at most once.
  \<open>get_graph_token\<close>, \<open>get_site\<close>, \<open>get_drives\<close> and \<open>get_children\<close>
  pass \<^verbatim>\<open>retries=False\<close>; \<open>get_file\<close> passes no
  \<^verbatim>\<open>retries\<close> argument (the line is commented out in the source), so its
  request runs under the transport's default retry policy. The claim as written,
  that every operation disables retries, fails at \<open>get_file\<close>.
\<close>

theorem retry_argument_per_operation:
  "map retries (fst (get_graph_token E tenant_domain client_id client_secret)) = [RetriesFalse] \<and>
   map retries (fst (get_site E tenant site token)) = [RetriesFalse] \<and>
   map retries (fst (get_drives E site_id token)) = [RetriesFalse] \<and>
   map retries (fst (get_children E drive_id token base_path category))
     = (if bad_base_path base_path then [] else [RetriesFalse]) \<and>
   map retries (fst (get_file E drive_id token file_name base_path))
     = (if bad_base_path base_path then [] else [RetriesNotPassed])"
  by (simp add: get_graph_token_def get_graph_token_try_def token_request_def
        get_site_def get_site_try_def site_request_def
        get_drives_def get_drives_try_def drives_request_def
        get_children_def get_children_try_def children_request_def
        get_file_def get_file_try_def file_request_def Let_def)

theorem get_file_retries_counterexample:
  "map retries (fst (get_file (canned (Inr ok_response) (Inr JNone)) ''d1'' ''tok'' ''q1.pdf''
      (Some ''/Reports''))) = [RetriesNotPassed] \<and>
   RetriesNotPassed \<noteq> RetriesFalse"
  by (simp add: get_file_def get_file_try_def file_request_def Let_def bad_base_path_def
        startswith_def)

theorem retry_argument_per_operation_witness:
  "map retries (fst (get_graph_token (canned (Inr ok_response) (Inr JNone)) ''contoso.com'' ''app'' ''secret''))
     = [RetriesFalse] \<and>
   map retries (fst (get_site (canned (Inr ok_response) (Inr JNone)) ''contoso'' ''hr'' ''tok''))
     = [RetriesFalse] \<and>
   map retries (fst (get_drives (canned (Inr ok_response) (Inr JNone)) ''abc123'' ''tok''))
     = [RetriesFalse] \<and>
   map retries (fst (get_children (canned (Inr ok_response) (Inr JNone)) ''d1'' ''tok'' None None))
     = [RetriesFalse] \<and>
   map retries (fst (get_file (canned (Inr ok_response) (Inr JNone)) ''d1'' ''tok'' ''q1.pdf'' None))
     = [RetriesNotPassed]"
  using retry_argument_per_operation
          [of "canned (Inr ok_response) (Inr JNone)" "''contoso.com''" "''app''" "''secret''"
              "''contoso''" "''hr''" "''tok''" "''abc123''" "''d1''" None None "''q1.pdf''"]
  by (simp add: bad_base_path_def)

section \<open>Listings\<close>

text \<open>
  Claim C2. On a 200 answer whose body is an object with a \<^verbatim>\<open>value\<close> list of
  objects, \<open>get_children\<close> with category \<^verbatim>\<open>folder\<close> returns exactly the
  elements that have a \<^verbatim>\<open>folder\<close> key, in order, each with kind
  \<^verbatim>\<open>folder\<close>. With any category it keeps the elements that have that key, and
  with no category it keeps them all. The kind of a kept element is
  \<^verbatim>\<open>folder\<close> when it has a \<^verbatim>\<open>folder\<close> key, else \<^verbatim>\<open>file\<close>
  when it has a \<^verbatim>\<open>file\<close> key, else \<^verbatim>\<open>unknown\<close>; so an element with
  neither key is returned, with kind \<^verbatim>\<open>unknown\<close>, when no category is given.
\<close>

theorem children_filter_and_kind:
  assumes "\<not> bad_base_path base_path"
    and "request E (children_request drive_id token base_path) = Inr resp"
    and "status resp = 200"
    and "loads E (data resp) = Inr (JDict kvs)"
    and "map_of kvs ''value'' = Some (JList ds)"
    and "list_all is_dict ds"
  shows "snd (get_children E drive_id token base_path (Some ''folder''))
           = Inr (map (\<lambda>d. (field_of d ''name'', field_of d ''webUrl'', ''folder''))
                   (filter (\<lambda>d. has_key d ''folder'') ds)) \<and>
         snd (get_children E drive_id token base_path (Some c))
           = Inr (map (\<lambda>d. (field_of d ''name'', field_of d ''webUrl'',
                            if has_key d ''folder'' then ''folder''
                            else if has_key d ''file'' then ''file'' else ''unknown''))
                   (filter (\<lambda>d. has_key d c) ds)) \<and>
         snd (get_children E drive_id token base_path None)
           = Inr (map (\<lambda>d. (field_of d ''name'', field_of d ''webUrl'',
                            if has_key d ''folder'' then ''folder''
                            else if has_key d ''file'' then ''file'' else ''unknown''))
                   ds)"
proof -
  have run: "snd (get_children E drive_id token base_path category)
      = Inr (map (\<lambda>d. (field_of d ''name'', field_of d ''webUrl'',
                    if has_key d ''folder'' then ''folder''
                    else if has_key d ''file'' then ''file'' else ''unknown''))
            (filter (\<lambda>d. case category of None \<Rightarrow> True | Some c \<Rightarrow> has_key d c) ds))"
    for category
    using assms(1-5) child_entries_dicts [OF assms(6), of category]
    by (simp add: get_children_def get_children_try_def rewrap_def Let_def)
  have folders: "map (\<lambda>d. (field_of d ''name'', field_of d ''webUrl'',
                    if has_key d ''folder'' then ''folder''
                    else if has_key d ''file'' then ''file'' else ''unknown''))
            (filter (\<lambda>d. has_key d ''folder'') ds)
      = map (\<lambda>d. (field_of d ''name'', field_of d ''webUrl'', ''folder''))
            (filter (\<lambda>d. has_key d ''folder'') ds)"
    by (rule map_cong) simp_all
  show ?thesis
    using run [of "Some ''folder''"] run [of "Some c"] run [of None] folders
    by simp
qed

theorem children_filter_and_kind_witness:
  "snd (get_children (canned (Inr ok_response) (Inr (JDict [(''value'', JList sample_children)])))
         ''d1'' ''tok'' (Some ''/'') (Some ''folder''))
     = Inr [(JStr ''Reports'', JStr ''https://x/Reports'', ''folder'')] \<and>
   snd (get_children (canned (Inr ok_response) (Inr (JDict [(''value'', JList sample_children)])))
         ''d1'' ''tok'' (Some ''/'') (Some ''file''))
     = Inr [(JStr ''q1.pdf'', JStr ''https://x/q1.pdf'', ''file'')] \<and>
   snd (get_children (canned (Inr ok_response) (Inr (JDict [(''value'', JList sample_children)])))
         ''d1'' ''tok'' (Some ''/'') None)
     = Inr [(JStr ''Reports'', JStr ''https://x/Reports'', ''folder''),
            (JStr ''q1.pdf'', JStr ''https://x/q1.pdf'', ''file''),
            (JStr ''misc'', JNone, ''unknown'')]"
proof -
  let ?E = "canned (Inr ok_response) (Inr (JDict [(''value'', JList sample_children)]))"
  have b: "\<not> bad_base_path (Some ''/'')"
    by (simp add: bad_base_path_def startswith_def)
  have r: "request ?E (children_request ''d1'' ''tok'' (Some ''/'')) = Inr ok_response"
    by (simp add: canned_def)
  have s: "status ok_response = 200"
    by (simp add: ok_response_def)
  have l: "loads ?E (data ok_response) = Inr (JDict [(''value'', JList sample_children)])"
    by (simp add: canned_def)
  have v: "map_of [(''value'', JList sample_children)] ''value'' = Some (JList sample_children)"
    by simp
  have d: "list_all is_dict sample_children"
    by (simp add: sample_children_def)
  show ?thesis
    using children_filter_and_kind [OF b r s l v d, of "''file''"]
    by (simp add: sample_children_def)
qed

text \<open>
  Claim C5. On a 200 answer whose body is an object, \<open>get_drives\<close> returns the empty
  list, and does not fail, when \<^verbatim>\<open>value\<close> is absent or is the empty list;
  when \<^verbatim>\<open>value\<close> is a list of objects the result is the list of their
  \<^verbatim>\<open>(id, name)\<close> pairs, in order.
\<close>

theorem drives_value_list:
  assumes "request E (drives_request site_id token) = Inr resp"
    and "status resp = 200"
    and "loads E (data resp) = Inr (JDict kvs)"
  shows "(map_of kvs ''value'' = None \<longrightarrow> snd (get_drives E site_id token) = Inr []) \<and>
         (map_of kvs ''value'' = Some (JList []) \<longrightarrow> snd (get_drives E site_id token) = Inr []) \<and>
         (map_of kvs ''value'' = Some (JList ds) \<and> list_all is_dict ds \<longrightarrow>
            snd (get_drives E site_id token)
              = Inr (map (\<lambda>d. (field_of d ''id'', field_of d ''name'')) ds))"
  using assms
  by (auto simp: get_drives_def get_drives_try_def rewrap_def Let_def drive_pairs_dicts)

theorem drives_value_list_witness:
  "snd (get_drives (canned (Inr ok_response) (Inr (JDict []))) ''abc123'' ''tok'') = Inr [] \<and>
   snd (get_drives (canned (Inr ok_response) (Inr (JDict [(''value'', JList [])]))) ''abc123'' ''tok'')
     = Inr [] \<and>
   snd (get_drives
         (canned (Inr ok_response)
            (Inr (JDict [(''value'', JList [JDict [(''id'', JStr ''d1''), (''name'', JStr ''Documents'')],
                                             JDict [(''id'', JStr ''d2'')]])])))
         ''abc123'' ''tok'')
     = Inr [(JStr ''d1'', JStr ''Documents''), (JStr ''d2'', JNone)]"
proof -
  let ?ds = "[JDict [(''id'', JStr ''d1''), (''name'', JStr ''Documents'')], JDict [(''id'', JStr ''d2'')]]"
  let ?E1 = "canned (Inr ok_response) (Inr (JDict []))"
  let ?E2 = "canned (Inr ok_response) (Inr (JDict [(''value'', JList [])]))"
  let ?E3 = "canned (Inr ok_response) (Inr (JDict [(''value'', JList ?ds)]))"
  have s: "status ok_response = 200"
    by (simp add: ok_response_def)
  have r1: "request ?E1 (drives_request ''abc123'' ''tok'') = Inr ok_response"
    and r2: "request ?E2 (drives_request ''abc123'' ''tok'') = Inr ok_response"
    and r3: "request ?E3 (drives_request ''abc123'' ''tok'') = Inr ok_response"
    by (simp_all add: canned_def)
  have l1: "loads ?E1 (data ok_response) = Inr (JDict [])"
    and l2: "loads ?E2 (data ok_response) = Inr (JDict [(''value'', JList [])])"
    and l3: "loads ?E3 (data ok_response) = Inr (JDict [(''value'', JList ?ds)])"
    by (simp_all add: canned_def)
  show ?thesis
    using drives_value_list [OF r1 s l1] drives_value_list [OF r2 s l2]
      drives_value_list [OF r3 s l3, of ?ds]
    by simp
qed

section \<open>File fetch\<close>

text \<open>
  Claim C4. When the request of \<open>get_file\<close> is answered with status 200, the result
  is a byte buffer holding exactly the bytes of the response body. On any other status
  \<open>get_file\<close> fails; when the body is a JSON object whose \<^verbatim>\<open>error\<close>
  object has a \<^verbatim>\<open>message\<close> string, the failure message contains that string.
\<close>

theorem file_bytes_or_provider_message:
  assumes "\<not> bad_base_path base_path"
    and "request E (file_request drive_id token file_name base_path) = Inr resp"
  shows "(status resp = 200 \<longrightarrow>
            snd (get_file E drive_id token file_name base_path) = Inr (BytesIO (data resp))) \<and>
         (status resp \<noteq> 200 \<longrightarrow>
            (\<exists>e. snd (get_file E drive_id token file_name base_path) = Inl e)) \<and>
         (status resp \<noteq> 200 \<and> loads E (data resp) = Inr (JDict kvs) \<and>
          map_of kvs ''error'' = Some (JDict err) \<and> map_of err ''message'' = Some (JStr m) \<longrightarrow>
            snd (get_file E drive_id token file_name base_path)
              = Inl (Exception (JStr (''Invalid Site: '' @ m))) \<and>
            is_substring m (''Invalid Site: '' @ m))"
proof (intro conjI impI)
  assume "status resp = 200"
  with assms show "snd (get_file E drive_id token file_name base_path) = Inr (BytesIO (data resp))"
    by (simp add: get_file_def get_file_try_def rewrap_def Let_def)
next
  assume ne: "status resp \<noteq> 200"
  have "\<exists>e0. then_res (loads E (data resp)) (api_error :: json \<Rightarrow> py_exn + bytesio) = Inl e0"
    by (cases "loads E (data resp)")
       (auto simp: api_error_def then_res_def split: sum.splits)
  with assms ne show "\<exists>e. snd (get_file E drive_id token file_name base_path) = Inl e"
    by (auto simp: get_file_def get_file_try_def rewrap_def Let_def)
next
  assume h: "status resp \<noteq> 200 \<and> loads E (data resp) = Inr (JDict kvs) \<and>
          map_of kvs ''error'' = Some (JDict err) \<and> map_of err ''message'' = Some (JStr m)"
  with assms show "snd (get_file E drive_id token file_name base_path)
              = Inl (Exception (JStr (''Invalid Site: '' @ m)))"
    by (simp add: get_file_def get_file_try_def rewrap_def Let_def api_error_def)
  show "is_substring m (''Invalid Site: '' @ m)"
    by (rule is_substring_suffix)
qed

theorem file_bytes_or_provider_message_witness:
  "snd (get_file (canned (Inr ok_response) (Inr JNone)) ''d1'' ''tok'' ''q1.pdf'' (Some ''/Reports''))
     = Inr (BytesIO [1, 2, 3]) \<and>
   snd (get_file (canned (Inr not_found_response) (Inr item_not_found)) ''d1'' ''tok'' ''q1.pdf''
          (Some ''/Reports''))
     = Inl (Exception (JStr ''Invalid Site: The resource could not be found.''))"
proof -
  let ?E1 = "canned (Inr ok_response) (Inr JNone)"
  let ?E2 = "canned (Inr not_found_response) (Inr item_not_found)"
  have b: "\<not> bad_base_path (Some ''/Reports'')"
    by (simp add: bad_base_path_def startswith_def)
  have r1: "request ?E1 (file_request ''d1'' ''tok'' ''q1.pdf'' (Some ''/Reports'')) = Inr ok_response"
    and r2: "request ?E2 (file_request ''d1'' ''tok'' ''q1.pdf'' (Some ''/Reports''))
               = Inr not_found_response"
    by (simp_all add: canned_def)
  have l2: "loads ?E2 (data not_found_response) = Inr item_not_found"
    by (simp add: canned_def)
  show ?thesis
    using file_bytes_or_provider_message [OF b r1]
      file_bytes_or_provider_message [OF b r2,
        of "[(''error'', JDict [(''code'', JStr ''itemNotFound''),
                                (''message'', JStr ''The resource could not be found.'')])]"
           "[(''code'', JStr ''itemNotFound''), (''message'', JStr ''The resource could not be found.'')]"
           "''The resource could not be found.''"]
      l2
    by (simp add: ok_response_def not_found_response_def item_not_found_def)
qed

section \<open>Token acquisition: success\<close>




section \<open>The label of re-raised failures\<close>

text \<open>
  Claim C8. In \<open>get_site\<close>, \<open>get_drives\<close>, \<open>get_children\<close> and \<open>get_file\<close>,
  whatever exception \<open>e0\<close> the \<^verbatim>\<open>try\<close> block raises, the operation raises
  an \<open>Exception\<close> whose message is \<^verbatim>\<open>Invalid Site: \<close> followed by the
  message of \<open>e0\<close>. This holds for each cause: a failure of the transport, a body that
  does not decode, and a status other than 200 (where the message that follows is the
  provider's \<^verbatim>\<open>error.message\<close>). The label is the same in all four operations.
\<close>

theorem invalid_site_label:
  assumes "\<not> bad_base_path base_path"
  shows
    "(snd (get_site_try E tenant site token) = Inl e0 \<longrightarrow>
        snd (get_site E tenant site token)
          = Inl (Exception (JStr (''Invalid Site: '' @ exn_str E e0)))) \<and>
     (snd (get_drives_try E site_id token) = Inl e0 \<longrightarrow>
        snd (get_drives E site_id token)
          = Inl (Exception (JStr (''Invalid Site: '' @ exn_str E e0)))) \<and>
     (snd (get_children_try E drive_id token base_path category) = Inl e0 \<longrightarrow>
        snd (get_children E drive_id token base_path category)
          = Inl (Exception (JStr (''Invalid Site: '' @ exn_str E e0)))) \<and>
     (snd (get_file_try E drive_id token file_name base_path) = Inl e0 \<longrightarrow>
        snd (get_file E drive_id token file_name base_path)
          = Inl (Exception (JStr (''Invalid Site: '' @ exn_str E e0)))) \<and>
     (request E (site_request tenant site token) = Inl e0 \<longrightarrow>
        snd (get_site E tenant site token)
          = Inl (Exception (JStr (''Invalid Site: '' @ exn_str E e0)))) \<and>
     (request E (drives_request site_id token) = Inl e0 \<longrightarrow>
        snd (get_drives E site_id token)
          = Inl (Exception (JStr (''Invalid Site: '' @ exn_str E e0)))) \<and>
     (request E (children_request drive_id token base_path) = Inl e0 \<longrightarrow>
        snd (get_children E drive_id token base_path category)
          = Inl (Exception (JStr (''Invalid Site: '' @ exn_str E e0)))) \<and>
     (request E (file_request drive_id token file_name base_path) = Inl e0 \<longrightarrow>
        snd (get_file E drive_id token file_name base_path)
          = Inl (Exception (JStr (''Invalid Site: '' @ exn_str E e0)))) \<and>
     (request E (site_request tenant site token) = Inr resp \<and> loads E (data resp) = Inl e0 \<longrightarrow>
        snd (get_site E tenant site token)
          = Inl (Exception (JStr (''Invalid Site: '' @ exn_str E e0)))) \<and>
     (request E (drives_request site_id token) = Inr resp \<and> loads E (data resp) = Inl e0 \<longrightarrow>
        snd (get_drives E site_id token)
          = Inl (Exception (JStr (''Invalid Site: '' @ exn_str E e0)))) \<and>
     (request E (children_request drive_id token base_path) = Inr resp \<and>
      loads E (data resp) = Inl e0 \<longrightarrow>
        snd (get_children E drive_id token base_path category)
          = Inl (Exception (JStr (''Invalid Site: '' @ exn_str E e0)))) \<and>
     (request E (file_request drive_id token file_name base_path) = Inr resp \<and>
      status resp \<noteq> 200 \<and> loads E (data resp) = Inl e0 \<longrightarrow>
        snd (get_file E drive_id token file_name base_path)
          = Inl (Exception (JStr (''Invalid Site: '' @ exn_str E e0)))) \<and>
     (status resp \<noteq> 200 \<and> loads E (data resp) = Inr (JDict kvs) \<and>
      map_of kvs ''error'' = Some (JDict err) \<and> map_of err ''message'' = Some m \<longrightarrow>
        (request E (site_request tenant site token) = Inr resp \<longrightarrow>
           snd (get_site E tenant site token)
             = Inl (Exception (JStr (''Invalid Site: '' @ py_str E m)))) \<and>
        (request E (drives_request site_id token) = Inr resp \<longrightarrow>
           snd (get_drives E site_id token)
             = Inl (Exception (JStr (''Invalid Site: '' @ py_str E m)))) \<and>
        (request E (children_request drive_id token base_path) = Inr resp \<longrightarrow>
           snd (get_children E drive_id token base_path category)
             = Inl (Exception (JStr (''Invalid Site: '' @ py_str E m)))) \<and>
        (request E (file_request drive_id token file_name base_path) = Inr resp \<longrightarrow>
           snd (get_file E drive_id token file_name base_path)
             = Inl (Exception (JStr (''Invalid Site: '' @ py_str E m)))))"
  using assms
  by (simp add: get_site_def get_drives_def get_children_def get_file_def rewrap_def
        get_site_try_def get_drives_try_def get_children_try_def get_file_try_def Let_def
        api_error_message)

theorem invalid_site_label_witness:
  "snd (get_site (canned (Inl (LibraryError ''connection refused'')) (Inr JNone))
         ''contoso'' ''hr'' ''tok'')
     = Inl (Exception (JStr ''Invalid Site: connection refused'')) \<and>
   snd (get_drives (canned (Inl (LibraryError ''connection refused'')) (Inr JNone)) ''abc123'' ''tok'')
     = Inl (Exception (JStr ''Invalid Site: connection refused'')) \<and>
   snd (get_children (canned (Inl (LibraryError ''connection refused'')) (Inr JNone))
         ''d1'' ''tok'' None None)
     = Inl (Exception (JStr ''Invalid Site: connection refused'')) \<and>
   snd (get_file (canned (Inl (LibraryError ''connection refused'')) (Inr JNone))
         ''d1'' ''tok'' ''q1.pdf'' None)
     = Inl (Exception (JStr ''Invalid Site: connection refused'')) \<and>
   snd (get_site (canned (Inr not_found_response) (Inl (LibraryError ''Expecting value'')))
         ''contoso'' ''hr'' ''tok'')
     = Inl (Exception (JStr ''Invalid Site: Expecting value'')) \<and>
   snd (get_drives (canned (Inr not_found_response) (Inl (LibraryError ''Expecting value'')))
         ''abc123'' ''tok'')
     = Inl (Exception (JStr ''Invalid Site: Expecting value'')) \<and>
   snd (get_children (canned (Inr not_found_response) (Inl (LibraryError ''Expecting value'')))
         ''d1'' ''tok'' None None)
     = Inl (Exception (JStr ''Invalid Site: Expecting value'')) \<and>
   snd (get_file (canned (Inr not_found_response) (Inl (LibraryError ''Expecting value'')))
         ''d1'' ''tok'' ''q1.pdf'' None)
     = Inl (Exception (JStr ''Invalid Site: Expecting value'')) \<and>
   snd (get_site (canned (Inr not_found_response) (Inr item_not_found)) ''contoso'' ''hr'' ''tok'')
     = Inl (Exception (JStr ''Invalid Site: The resource could not be found.'')) \<and>
   snd (get_drives (canned (Inr not_found_response) (Inr item_not_found)) ''abc123'' ''tok'')
     = Inl (Exception (JStr ''Invalid Site: The resource could not be found.'')) \<and>
   snd (get_children (canned (Inr not_found_response) (Inr item_not_found)) ''d1'' ''tok'' None None)
     = Inl (Exception (JStr ''Invalid Site: The resource could not be found.'')) \<and>
   snd (get_file (canned (Inr not_found_response) (Inr item_not_found)) ''d1'' ''tok'' ''q1.pdf'' None)
     = Inl (Exception (JStr ''Invalid Site: The resource could not be found.''))"
proof -
  let ?E1 = "canned (Inl (LibraryError ''connection refused'')) (Inr JNone)"
  let ?E2 = "canned (Inr not_found_response) (Inl (LibraryError ''Expecting value''))"
  let ?E3 = "canned (Inr not_found_response) (Inr item_not_found)"
  have b: "\<not> bad_base_path None"
    by (simp add: bad_base_path_def)
  have network:
    "request ?E1 (site_request ''contoso'' ''hr'' ''tok'') = Inl (LibraryError ''connection refused'')"
    "request ?E1 (drives_request ''abc123'' ''tok'') = Inl (LibraryError ''connection refused'')"
    "request ?E1 (children_request ''d1'' ''tok'' None) = Inl (LibraryError ''connection refused'')"
    "request ?E1 (file_request ''d1'' ''tok'' ''q1.pdf'' None) = Inl (LibraryError ''connection refused'')"
    by (simp_all add: canned_def)
  have malformed:
    "request ?E2 (site_request ''contoso'' ''hr'' ''tok'') = Inr not_found_response"
    "request ?E2 (drives_request ''abc123'' ''tok'') = Inr not_found_response"
    "request ?E2 (children_request ''d1'' ''tok'' None) = Inr not_found_response"
    "request ?E2 (file_request ''d1'' ''tok'' ''q1.pdf'' None) = Inr not_found_response"
    "loads ?E2 (data not_found_response) = Inl (LibraryError ''Expecting value'')"
    by (simp_all add: canned_def)
  have refused:
    "request ?E3 (site_request ''contoso'' ''hr'' ''tok'') = Inr not_found_response"
    "request ?E3 (drives_request ''abc123'' ''tok'') = Inr not_found_response"
    "request ?E3 (children_request ''d1'' ''tok'' None) = Inr not_found_response"
    "request ?E3 (file_request ''d1'' ''tok'' ''q1.pdf'' None) = Inr not_found_response"
    "loads ?E3 (data not_found_response)
       = Inr (JDict [(''error'', JDict [(''code'', JStr ''itemNotFound''),
                                        (''message'', JStr ''The resource could not be found.'')])])"
    by (simp_all add: canned_def item_not_found_def)
  have s: "status not_found_response \<noteq> 200"
    by (simp add: not_found_response_def)
  note w1 = invalid_site_label [OF b, where E = ?E1 and tenant = "''contoso''" and site = "''hr''"
      and token = "''tok''" and site_id = "''abc123''" and drive_id = "''d1''"
      and file_name = "''q1.pdf''" and category = None
      and ?e0.0 = "LibraryError ''connection refused''"]
  note w2 = invalid_site_label [OF b, where E = ?E2 and tenant = "''contoso''" and site = "''hr''"
      and token = "''tok''" and site_id = "''abc123''" and drive_id = "''d1''"
      and file_name = "''q1.pdf''" and category = None and resp = not_found_response
      and ?e0.0 = "LibraryError ''Expecting value''"]
  note w3 = invalid_site_label [OF b, where E = ?E3 and tenant = "''contoso''" and site = "''hr''"
      and token = "''tok''" and site_id = "''abc123''" and drive_id = "''d1''"
      and file_name = "''q1.pdf''" and category = None and resp = not_found_response
      and kvs = "[(''error'', JDict [(''code'', JStr ''itemNotFound''),
                                     (''message'', JStr ''The resource could not be found.'')])]"
      and err = "[(''code'', JStr ''itemNotFound''), (''message'', JStr ''The resource could not be found.'')]"
      and m = "JStr ''The resource could not be found.''"]
  show ?thesis
    using w1 w2 w3 network malformed refused s
    by simp
qed

end
